theory Spec2Isabelle
  imports Main "HOL-Library.Word"
begin

section \<open>Backup upload to S3: \<^verbatim>\<open>neo4j-admin/backup/aws/operations.go\<close>\<close>

text \<open>
  A shallow embedding of the AWS operations of the backup tool: bucket-address parsing
  and key naming (\<^verbatim>\<open>generateKeyName\<close>), the connectivity check
  (\<^verbatim>\<open>CheckBucketAccess\<close>), the upload loop (\<^verbatim>\<open>UploadFile\<close>,
  \<^verbatim>\<open>UploadLargeObject\<close>) and the export of credentials to the process
  environment (\<^verbatim>\<open>GenerateEnvVariablesFromCredentials\<close>).

  Go strings are byte sequences, here \<^typ>\<open>string\<close>. The file system, the S3
  service and the environment store are outside the program: their answers are
  the fields of a record \<open>outside\<close> that the functions consult, and the mutable part
  (environment variables, open handles, calls made) is a record \<open>state\<close> that the
  functions take and return updated.
  Calls to \<^verbatim>\<open>log.Printf\<close> are left out.
\<close>

subsection \<open>The string functions of Go that the code calls\<close>

text \<open>
  \<^verbatim>\<open>strings.Index(s, "/")\<close>: the index of the first occurrence of the separator, or
  \<open>-1\<close> when there is none. The separator is one byte, so it is a \<^typ>\<open>char\<close>.
\<close>

fun strings_Index :: "string \<Rightarrow> char \<Rightarrow> int" where
  "strings_Index [] c = - 1"
| "strings_Index (x # xs) c =
     (if x = c then 0
      else (let i = strings_Index xs c in if i < 0 then - 1 else i + 1))"

text \<open>\<^verbatim>\<open>strings.Contains(s, "/")\<close> is \<^verbatim>\<open>Index(s, "/") >= 0\<close>.\<close>

definition strings_Contains :: "string \<Rightarrow> char \<Rightarrow> bool" where
  "strings_Contains s c = (0 \<le> strings_Index s c)"

text \<open>
  The slice expressions \<^verbatim>\<open>s[:i]\<close> and \<^verbatim>\<open>s[i:]\<close>. Go panics when
  \<open>i\<close> is outside \<open>0..len(s)\<close>; every slice of the code is guarded by
  \<^verbatim>\<open>strings.Contains\<close>, which keeps the index in range (lemma
  \<open>strings_Index_in_range\<close>).
\<close>

definition slice_to :: "string \<Rightarrow> int \<Rightarrow> string" where
  "slice_to s i = take (nat i) s"

definition slice_from :: "string \<Rightarrow> int \<Rightarrow> string" where
  "slice_from s i = drop (nat i) s"

text \<open>\<^verbatim>\<open>fmt.Sprintf("%s/%s", a, b)\<close>.\<close>

definition Sprintf_slash :: "string \<Rightarrow> string \<Rightarrow> string" where
  "Sprintf_slash a b = a @ ''/'' @ b"

subsection \<open>Key naming\<close>

text \<open>
  \<^verbatim>\<open>
  func generateKeyName(bucketName string, fileName string) string {
      keyName := fileName
      if strings.Contains(bucketName, "/") {
          index := strings.Index(bucketName, "/")
          keyName = fmt.Sprintf("%s/%s", bucketName[index+1:], fileName)
      }
      return keyName
  }
  \<close>
\<close>

definition generateKeyName :: "string \<Rightarrow> string \<Rightarrow> string" where
  "generateKeyName bucketName fileName =
     (if strings_Contains bucketName CHR ''/''
      then (let index = strings_Index bucketName CHR ''/''
            in Sprintf_slash (slice_from bucketName (index + 1)) fileName)
      else fileName)"

text \<open>
  The physical bucket, as the first lines of \<^verbatim>\<open>UploadFile\<close> compute it:
  \<^verbatim>\<open>
  parentBucketName := bucketName
  if strings.Contains(bucketName, "/") {
      index := strings.Index(bucketName, "/")
      parentBucketName = bucketName[:index]
  }
  \<close>
\<close>

definition parentBucketName :: "string \<Rightarrow> string" where
  "parentBucketName bucketName =
     (if strings_Contains bucketName CHR ''/''
      then (let index = strings_Index bucketName CHR ''/''
            in slice_to bucketName index)
      else bucketName)"

subsection \<open>Errors, the outside world and the program state\<close>

text \<open>
  A Go \<^verbatim>\<open>error\<close> is represented by its message: \<^verbatim>\<open>fmt.Errorf\<close> builds
  one from a format, and the verb \<^verbatim>\<open>%v\<close> prints the message of the error it wraps.
\<close>

datatype error = Err string

fun error_text :: "error \<Rightarrow> string" where
  "error_text (Err m) = m"

definition newline :: string where
  "newline = [CHR 0x0A]"

text \<open>
  The inputs of the S3 calls: \<^verbatim>\<open>s3.ListObjectsV2Input{Bucket, Prefix}\<close> (the prefix
  is a pointer, absent when not set) and \<^verbatim>\<open>s3.PutObjectInput{Bucket, Key, Body}\<close>.
  The body is the opened file, identified by its path.
\<close>

datatype ListObjectsV2Input =
  ListObjectsV2Input (list_Bucket: string) (list_Prefix: "string option")

datatype PutObjectInput =
  PutObjectInput (put_Bucket: string) (put_Key: string) (put_Body: string)

text \<open>
  Every call the program makes to the outside is recorded, in order:
  the file system (\<open>Stat\<close>, \<open>Open\<close>, \<open>Close\<close>), the S3 client (\<open>ListObjectsV2\<close>,
  \<open>PutObject\<close>), the multipart uploader with its part size (\<open>Upload\<close>) and the
  environment store (\<open>Setenv\<close>).
\<close>

datatype event =
    Stat string
  | Open string
  | Close string
  | ListObjectsV2 ListObjectsV2Input
  | PutObject PutObjectInput
  | Upload "64 word" PutObjectInput
  | Setenv string string

text \<open>
  The answers of the outside: what \<^verbatim>\<open>os.Stat\<close> reports for a path (an error or
  the size in bytes), whether \<^verbatim>\<open>os.Open\<close> fails, what the S3 service answers to
  each request (for a listing, an error or the keys of the first page of
  \<^verbatim>\<open>Contents\<close>), and whether the environment store rejects a write.
\<close>

record outside =
  os_Stat :: "string \<Rightarrow> error + 64 word"
  os_Open :: "string \<Rightarrow> error option"
  s3_ListObjectsV2 :: "ListObjectsV2Input \<Rightarrow> error + string list"
  s3_PutObject :: "PutObjectInput \<Rightarrow> error option"
  s3_Upload :: "64 word \<Rightarrow> PutObjectInput \<Rightarrow> error option"
  setenv_rejects :: "string \<Rightarrow> string \<Rightarrow> error option"

text \<open>
  The mutable state of the process: the environment variables, the file handles that
  are open (one entry per handle, by path) and the calls made so far.
\<close>

record state =
  environ :: "string \<rightharpoonup> string"
  handles :: "string list"
  calls :: "event list"

definition record_call :: "event \<Rightarrow> state \<Rightarrow> state" where
  "record_call e s = s\<lparr>calls := calls s @ [e]\<rparr>"

text \<open>\<^verbatim>\<open>os.Getenv\<close>: the value, or the empty string when the variable is not set.\<close>

definition os_Getenv :: "state \<Rightarrow> string \<Rightarrow> string" where
  "os_Getenv s key = (case environ s key of None \<Rightarrow> [] | Some v \<Rightarrow> v)"

text \<open>\<^verbatim>\<open>os.Setenv\<close>: a rejected write returns the error and leaves the store as it was.\<close>

definition os_Setenv :: "outside \<Rightarrow> string \<Rightarrow> string \<Rightarrow> state \<Rightarrow> error option \<times> state" where
  "os_Setenv X key v s =
     (let s1 = record_call (Setenv key v) s
      in case setenv_rejects X key v of
           Some err \<Rightarrow> (Some err, s1)
         | None \<Rightarrow> (None, s1\<lparr>environ := (environ s1)(key \<mapsto> v)\<rparr>))"

text \<open>
  \<^verbatim>\<open>os.Open\<close> adds a handle when it succeeds; \<^verbatim>\<open>file.Close()\<close> releases one
  (its own error is ignored by the code).
\<close>

definition file_Open :: "outside \<Rightarrow> string \<Rightarrow> state \<Rightarrow> error option \<times> state" where
  "file_Open X filePath s =
     (let s1 = record_call (Open filePath) s
      in case os_Open X filePath of
           Some err \<Rightarrow> (Some err, s1)
         | None \<Rightarrow> (None, s1\<lparr>handles := filePath # handles s1\<rparr>))"

definition file_Close :: "string \<Rightarrow> state \<Rightarrow> state" where
  "file_Close filePath s =
     (let s1 = record_call (Close filePath) s
      in s1\<lparr>handles := remove1 filePath (handles s1)\<rparr>)"

subsection \<open>Size classification\<close>

text \<open>
  Modelled from the spec: \<^verbatim>\<open>common.IsFileBigger\<close>, which \<^verbatim>\<open>UploadFile\<close> calls
  and which lives in the package \<^verbatim>\<open>neo4j-admin/backup/common\<close>, is not among the
  sources. The spec: the threshold is 1 GiB (\<open>1024\<^sup>3\<close> bytes), fixed; a size greater
  than or equal to the threshold is \<open>Multipart\<close>, any other \<open>Direct\<close>; the size
  (an unsigned 64-bit number of bytes) is read by a file-system stat, whose failure is
  surfaced to the caller.
\<close>

datatype UploadStrategy = Direct | Multipart

definition threshold :: "64 word" where
  "threshold = 1024 * 1024 * 1024"

definition classify :: "64 word \<Rightarrow> UploadStrategy" where
  "classify sizeBytes = (if threshold \<le> sizeBytes then Multipart else Direct)"

definition IsFileBigger :: "outside \<Rightarrow> string \<Rightarrow> state \<Rightarrow> (bool \<times> error option) \<times> state" where
  "IsFileBigger X filePath s =
     (let s1 = record_call (Stat filePath) s
      in case os_Stat X filePath of
           Inl err \<Rightarrow> ((False, Some err), s1)
         | Inr sizeBytes \<Rightarrow> ((classify sizeBytes = Multipart, None), s1))"

subsection \<open>Upload\<close>

text \<open>
  \<^verbatim>\<open>
  func (a *awsClient) UploadLargeObject(fileName string, location string,
          bucketName string, parentBucketName string) error {
      filePath := fmt.Sprintf("%s/%s", location, fileName)
      var partGiBs int64 = 1
      s3Client := a.getS3Client()
      uploader := manager.NewUploader(s3Client, func(u *manager.Uploader) {
          u.PartSize = partGiBs * 1024 * 1024 * 1024
      })
      file, err := os.Open(filePath)
      if err != nil {
          return fmt.Errorf("Couldn't open large file %v to upload. Here's why: %v\n", filePath, err)
      }
      defer file.Close()
      _, err = uploader.Upload(context.TODO(), &s3.PutObjectInput{
          Bucket: aws.String(parentBucketName),
          Key:    aws.String(generateKeyName(bucketName, fileName)),
          Body:   file,
      })
      if err != nil {
          return fmt.Errorf("Couldn't upload large file %v to %v:%v. Here's why: %v\n",
              filePath, bucketName, fileName, err)
      }
      return err
  }
  \<close>
  The deferred \<^verbatim>\<open>file.Close()\<close> runs on both returns that follow it.
\<close>

definition UploadLargeObject ::
  "outside \<Rightarrow> string \<Rightarrow> string \<Rightarrow> string \<Rightarrow> string \<Rightarrow> state \<Rightarrow> error option \<times> state" where
  "UploadLargeObject X fileName location bucketName parentBucket s =
     (let filePath = Sprintf_slash location fileName;
          partGiBs = (1 :: 64 word);
          PartSize = partGiBs * 1024 * 1024 * 1024
      in case file_Open X filePath s of
           (Some err, s1) \<Rightarrow>
             (Some (Err (''Couldn't open large file '' @ filePath @
                '' to upload. Here's why: '' @ error_text err @ newline)), s1)
         | (None, s1) \<Rightarrow>
             (let input = PutObjectInput parentBucket (generateKeyName bucketName fileName) filePath;
                  s2 = record_call (Upload PartSize input) s1
              in case s3_Upload X PartSize input of
                   Some err \<Rightarrow>
                     (Some (Err (''Couldn't upload large file '' @ filePath @ '' to '' @
                        bucketName @ '':'' @ fileName @ ''. Here's why: '' @
                        error_text err @ newline)), file_Close filePath s2)
                 | None \<Rightarrow> (None, file_Close filePath s2)))"

text \<open>
  One iteration of the loop of \<^verbatim>\<open>UploadFile\<close>, for one file name. The result
  \<open>Some err\<close> is a \<^verbatim>\<open>return err\<close> out of the loop; \<open>None\<close> is reaching the end of
  the body, or \<^verbatim>\<open>continue\<close>.
  \<^verbatim>\<open>
  filePath := fmt.Sprintf("%s/%s", location, fileName)
  yes, err := common.IsFileBigger(filePath)
  if err != nil {
      return err
  }
  if yes {
      err = a.UploadLargeObject(fileName, location, bucketName, parentBucketName)
      if err != nil {
          return err
      }
      continue
  }
  file, err := os.Open(filePath)
  if err != nil {
      return fmt.Errorf("Couldn't open file %v to upload. Here's why: %v\n", filePath, err)
  }
  _, err = s3Client.PutObject(context.TODO(), &s3.PutObjectInput{
      Bucket: aws.String(parentBucketName),
      Key:    aws.String(generateKeyName(bucketName, fileName)),
      Body:   file,
  })
  if err != nil {
      return fmt.Errorf("Couldn't upload file %v to %v:%v. Here's why: %v\n",
          filePath, bucketName, fileName, err)
  }
  file.Close()
  \<close>
\<close>

definition UploadFile_body ::
  "outside \<Rightarrow> string \<Rightarrow> string \<Rightarrow> string \<Rightarrow> string \<Rightarrow> state \<Rightarrow> error option \<times> state" where
  "UploadFile_body X bucketName parentBucket location fileName s =
     (let filePath = Sprintf_slash location fileName
      in case IsFileBigger X filePath s of
           ((yes, Some err), s1) \<Rightarrow> (Some err, s1)
         | ((yes, None), s1) \<Rightarrow>
             if yes then UploadLargeObject X fileName location bucketName parentBucket s1
             else
               (case file_Open X filePath s1 of
                  (Some err, s2) \<Rightarrow>
                    (Some (Err (''Couldn't open file '' @ filePath @
                       '' to upload. Here's why: '' @ error_text err @ newline)), s2)
                | (None, s2) \<Rightarrow>
                    (let input = PutObjectInput parentBucket
                                   (generateKeyName bucketName fileName) filePath;
                         s3 = record_call (PutObject input) s2
                     in case s3_PutObject X input of
                          Some err \<Rightarrow>
                            (Some (Err (''Couldn't upload file '' @ filePath @ '' to '' @
                               bucketName @ '':'' @ fileName @ ''. Here's why: '' @
                               error_text err @ newline)), s3)
                        | None \<Rightarrow> (None, file_Close filePath s3))))"

text \<open>The loop \<^verbatim>\<open>for _, fileName := range fileNames\<close>, ending in \<^verbatim>\<open>return nil\<close>.\<close>

fun UploadFile_loop ::
  "outside \<Rightarrow> string \<Rightarrow> string \<Rightarrow> string \<Rightarrow> string list \<Rightarrow> state \<Rightarrow> error option \<times> state" where
  "UploadFile_loop X bucketName parentBucket location [] s = (None, s)"
| "UploadFile_loop X bucketName parentBucket location (fileName # rest) s =
     (case UploadFile_body X bucketName parentBucket location fileName s of
        (Some err, s1) \<Rightarrow> (Some err, s1)
      | (None, s1) \<Rightarrow> UploadFile_loop X bucketName parentBucket location rest s1)"

text \<open>
  \<^verbatim>\<open>
  func (a *awsClient) UploadFile(fileNames []string, bucketName string) error {
      s3Client := a.getS3Client()
      parentBucketName := bucketName
      if strings.Contains(bucketName, "/") { ... }
      location := os.Getenv("LOCATION")
      for _, fileName := range fileNames { ... }
      return nil
  }
  \<close>
\<close>

definition UploadFile :: "outside \<Rightarrow> string list \<Rightarrow> string \<Rightarrow> state \<Rightarrow> error option \<times> state" where
  "UploadFile X fileNames bucketName s =
     (let parentBucket = parentBucketName bucketName;
          location = os_Getenv s ''LOCATION''
      in UploadFile_loop X bucketName parentBucket location fileNames s)"

subsection \<open>Connectivity check\<close>

text \<open>
  \<^verbatim>\<open>
  func (a *awsClient) CheckBucketAccess(bucketName string) error {
      client := a.getS3Client()
      s3Input := &s3.ListObjectsV2Input{Bucket: aws.String(bucketName)}
      if strings.Contains(bucketName, "/") {
          firstIndex := strings.Index(bucketName, "/")
          name := bucketName[:firstIndex]
          prefix := bucketName[firstIndex+1:]
          s3Input = &s3.ListObjectsV2Input{Bucket: aws.String(name), Prefix: aws.String(prefix)}
      }
      objects, err := client.ListObjectsV2(context.TODO(), s3Input)
      if err != nil {
          return fmt.Errorf("Unable to connect to s3 bucket %s \n Here's why: %v\n", bucketName, err)
      }
      if strings.Contains(bucketName, "/") {
          if len(objects.Contents) == 0 {
              return fmt.Errorf("s3 Bucket %s does not exist", bucketName)
          }
      }
      return nil
  }
  \<close>
\<close>

definition CheckBucketAccess :: "outside \<Rightarrow> string \<Rightarrow> state \<Rightarrow> error option \<times> state" where
  "CheckBucketAccess X bucketName s =
     (let s3Input =
            (if strings_Contains bucketName CHR ''/''
             then (let firstIndex = strings_Index bucketName CHR ''/'';
                       name = slice_to bucketName firstIndex;
                       prefix = slice_from bucketName (firstIndex + 1)
                   in ListObjectsV2Input name (Some prefix))
             else ListObjectsV2Input bucketName None);
          s1 = record_call (ListObjectsV2 s3Input) s
      in case s3_ListObjectsV2 X s3Input of
           Inl err \<Rightarrow>
             (Some (Err (''Unable to connect to s3 bucket '' @ bucketName @ '' '' @ newline @
                '' Here's why: '' @ error_text err @ newline)), s1)
         | Inr Contents \<Rightarrow>
             if strings_Contains bucketName CHR ''/'' \<and> length Contents = 0
             then (Some (Err (''s3 Bucket '' @ bucketName @ '' does not exist'')), s1)
             else (None, s1))"

subsection \<open>Credentials to environment variables\<close>

text \<open>
  The client holds an \<^verbatim>\<open>aws.Config\<close>: its credentials provider, represented by what
  \<^verbatim>\<open>Retrieve\<close> answers, and its region.
  \<^verbatim>\<open>
  func (a *awsClient) GenerateEnvVariablesFromCredentials() error {
      creds, err := a.cfg.Credentials.Retrieve(context.TODO())
      if err != nil {
          return err
      }
      err = os.Setenv("AWS_ACCESS_KEY_ID", creds.AccessKeyID)
      if err != nil {
          return err
      }
      err = os.Setenv("AWS_SECRET_ACCESS_KEY", creds.SecretAccessKey)
      if err != nil {
          return err
      }
      err = os.Setenv("AWS_REGION", a.cfg.Region)
      if err != nil {
          return err
      }
      return nil
  }
  \<close>
\<close>

record aws_Credentials =
  AccessKeyID :: string
  SecretAccessKey :: string

record aws_Config =
  Credentials_Retrieve :: "error + aws_Credentials"
  Region :: string

definition GenerateEnvVariablesFromCredentials ::
  "outside \<Rightarrow> aws_Config \<Rightarrow> state \<Rightarrow> error option \<times> state" where
  "GenerateEnvVariablesFromCredentials X cfg s =
     (case Credentials_Retrieve cfg of
        Inl err \<Rightarrow> (Some err, s)
      | Inr creds \<Rightarrow>
          (case os_Setenv X ''AWS_ACCESS_KEY_ID'' (AccessKeyID creds) s of
             (Some err, s1) \<Rightarrow> (Some err, s1)
           | (None, s1) \<Rightarrow>
               (case os_Setenv X ''AWS_SECRET_ACCESS_KEY'' (SecretAccessKey creds) s1 of
                  (Some err, s2) \<Rightarrow> (Some err, s2)
                | (None, s2) \<Rightarrow>
                    (case os_Setenv X ''AWS_REGION'' (Region cfg) s2 of
                       (Some err, s3) \<Rightarrow> (Some err, s3)
                     | (None, s3) \<Rightarrow> (None, s3)))))"

subsection \<open>Observing a run of the upload\<close>

text \<open>
  The local file a call concerns, the calls a run has added to the record, and whether
  a file goes through: its stat and its open succeed and the service accepts the request
  that its size selects. These three state the properties of \<^verbatim>\<open>UploadFile\<close>; the
  last is tied to the loop body by lemma \<open>UploadFile_body_succeeds\<close>.
\<close>

fun event_path :: "event \<Rightarrow> string option" where
  "event_path (Stat p) = Some p"
| "event_path (Open p) = Some p"
| "event_path (Close p) = Some p"
| "event_path (PutObject input) = Some (put_Body input)"
| "event_path (Upload PartSize input) = Some (put_Body input)"
| "event_path (ListObjectsV2 input) = None"
| "event_path (Setenv key v) = None"

definition new_calls :: "state \<Rightarrow> state \<Rightarrow> event list" where
  "new_calls s s' = drop (length (calls s)) (calls s')"

definition file_succeeds :: "outside \<Rightarrow> string \<Rightarrow> string \<Rightarrow> string \<Rightarrow> string \<Rightarrow> bool" where
  "file_succeeds X bucketName parentBucket location fileName =
     (let filePath = Sprintf_slash location fileName;
          input = PutObjectInput parentBucket (generateKeyName bucketName fileName) filePath
      in case os_Stat X filePath of
           Inl err \<Rightarrow> False
         | Inr sizeBytes \<Rightarrow>
             os_Open X filePath = None \<and>
             (if classify sizeBytes = Multipart then s3_Upload X 1073741824 input = None
              else s3_PutObject X input = None))"

subsection \<open>Concrete inputs\<close>

text \<open>
  An outside and a state on which the theorems below are evaluated: a backup directory
  \<^verbatim>\<open>/backups\<close> with two files of 2 GiB, a missing file and a file that cannot be
  opened, every other file being 10 bytes long; an S3 service that knows the buckets
  \<open>bucket\<close> (empty) and \<open>demo\<close> and refuses two keys; an environment store that rejects a value holding a NUL byte, as
  \<^verbatim>\<open>os.Setenv\<close> does.
\<close>

definition demo_outside :: outside where
  "demo_outside =
     \<lparr>os_Stat = (\<lambda>p. if p = ''/backups/big.dump'' \<or> p = ''/backups/bigrejected.dump''
                     then Inr 2147483648
                     else if p = ''/backups/gone.dump'' then Inl (Err ''no such file'')
                     else Inr 10),
      os_Open = (\<lambda>p. if p = ''/backups/locked.dump'' then Some (Err ''permission denied'')
                     else None),
      s3_ListObjectsV2 = (\<lambda>i. if list_Bucket i = ''bucket'' then Inr []
                              else if list_Bucket i = ''demo'' then Inr [''test/a.dump'']
                              else Inl (Err ''access denied'')),
      s3_PutObject = (\<lambda>i. if put_Key i = ''rejected.dump'' then Some (Err ''status 500'')
                          else None),
      s3_Upload = (\<lambda>ps i. if put_Key i = ''bigrejected.dump'' then Some (Err ''status 500'')
                           else None),
      setenv_rejects = (\<lambda>k v. if CHR 0x00 \<in> set v then Some (Err ''invalid argument'')
                              else None)\<rparr>"

definition demo_state :: state where
  "demo_state = \<lparr>environ = [''LOCATION'' \<mapsto> ''/backups''], handles = [], calls = []\<rparr>"

definition demo_config :: aws_Config where
  "demo_config =
     \<lparr>Credentials_Retrieve = Inr \<lparr>AccessKeyID = ''AKIA'', SecretAccessKey = ''secret''\<rparr>,
      Region = ''eu-west-1''\<rparr>"

definition broken_config :: aws_Config where
  "broken_config =
     \<lparr>Credentials_Retrieve =
        Inr \<lparr>AccessKeyID = ''AKIA'', SecretAccessKey = [CHR ''s'', CHR 0x00]\<rparr>,
      Region = ''eu-west-1''\<rparr>"

subsection \<open>Facts about the string functions\<close>

lemma strings_Index_lower: "- 1 \<le> strings_Index s c"
  by (induction s) (auto simp: Let_def)

lemma strings_Index_absent: "c \<notin> set s \<Longrightarrow> strings_Index s c = - 1"
  by (induction s) auto

lemma strings_Index_first:
  "c \<notin> set pre \<Longrightarrow> strings_Index (pre @ c # post) c = int (length pre)"
  by (induction pre) (auto simp: Let_def)

lemma strings_Contains_iff: "strings_Contains s c \<longleftrightarrow> c \<in> set s"
proof
  assume "strings_Contains s c"
  then show "c \<in> set s"
    using strings_Index_absent [of c s] by (auto simp: strings_Contains_def)
next
  assume "c \<in> set s"
  then obtain pre post where "s = pre @ c # post" and "c \<notin> set pre"
    by (auto dest: split_list_first)
  then show "strings_Contains s c"
    by (simp add: strings_Contains_def strings_Index_first)
qed

lemma strings_Index_in_range:
  assumes "strings_Contains s c"
  shows "0 \<le> strings_Index s c \<and> strings_Index s c + 1 \<le> int (length s)"
proof -
  from assms have "c \<in> set s" by (simp add: strings_Contains_iff)
  then obtain pre post where "s = pre @ c # post" and "c \<notin> set pre"
    by (auto dest: split_list_first)
  then show ?thesis by (simp add: strings_Index_first)
qed

lemma generateKeyName_plain:
  "CHR ''/'' \<notin> set bucketName \<Longrightarrow> generateKeyName bucketName fileName = fileName"
  by (simp add: generateKeyName_def strings_Contains_iff)

lemma generateKeyName_nested:
  assumes "CHR ''/'' \<notin> set pre"
  shows "generateKeyName (pre @ ''/'' @ post) fileName = post @ ''/'' @ fileName"
proof -
  have "strings_Index (pre @ ''/'' @ post) CHR ''/'' = int (length pre)"
    using strings_Index_first [OF assms, of post] by simp
  then show ?thesis
    by (simp add: generateKeyName_def strings_Contains_iff Sprintf_slash_def
        slice_from_def nat_add_distrib)
qed

lemma parentBucketName_plain:
  "CHR ''/'' \<notin> set bucketName \<Longrightarrow> parentBucketName bucketName = bucketName"
  by (simp add: parentBucketName_def strings_Contains_iff)

lemma parentBucketName_nested:
  assumes "CHR ''/'' \<notin> set pre"
  shows "parentBucketName (pre @ ''/'' @ post) = pre"
proof -
  have "strings_Index (pre @ ''/'' @ post) CHR ''/'' = int (length pre)"
    using strings_Index_first [OF assms, of post] by simp
  then show ?thesis
    by (simp add: parentBucketName_def strings_Contains_iff slice_to_def)
qed

subsection \<open>Key resolution\<close>

text \<open>
  C1. For every bucket address and file name (non-empty or not), key resolution is a
  function of the two strings. When the bucket address has no \<open>/\<close>, the physical bucket
  is the address itself and the object key is the file name. When the bucket address is
  \<open>pre/post\<close> with no \<open>/\<close> in \<open>pre\<close> (so the \<open>/\<close> shown is the first one, and
  \<open>post\<close> may hold more of them), the physical bucket is \<open>pre\<close> and the object key is
  \<open>post/fileName\<close>. Every bucket address with a \<open>/\<close> is of that form.
\<close>

theorem key_resolution:
  "(CHR ''/'' \<notin> set bucketAddress \<longrightarrow>
      parentBucketName bucketAddress = bucketAddress \<and>
      generateKeyName bucketAddress fileName = fileName) \<and>
   (CHR ''/'' \<notin> set pre \<longrightarrow>
      parentBucketName (pre @ ''/'' @ post) = pre \<and>
      generateKeyName (pre @ ''/'' @ post) fileName = post @ ''/'' @ fileName) \<and>
   (CHR ''/'' \<in> set bucketAddress \<longrightarrow>
      (\<exists>pre post. bucketAddress = pre @ ''/'' @ post \<and> CHR ''/'' \<notin> set pre))"
proof (intro conjI impI)
  assume "CHR ''/'' \<in> set bucketAddress"
  then obtain pre post where "bucketAddress = pre @ CHR ''/'' # post" and "CHR ''/'' \<notin> set pre"
    using split_list_first [of "CHR ''/''" bucketAddress] by blast
  then have "bucketAddress = pre @ ''/'' @ post \<and> CHR ''/'' \<notin> set pre"
    by simp
  then show "\<exists>pre post. bucketAddress = pre @ ''/'' @ post \<and> CHR ''/'' \<notin> set pre"
    by blast
qed (use generateKeyName_nested [of pre post fileName] parentBucketName_nested [of pre post]
    in \<open>simp_all add: generateKeyName_plain parentBucketName_plain\<close>)

theorem key_resolution_witness:
  "CHR ''/'' \<notin> set ''demo'' \<and> CHR ''/'' \<notin> set ''A'' \<and>
   parentBucketName ''demo'' = ''demo'' \<and>
   generateKeyName ''demo'' ''x.dump'' = ''x.dump'' \<and>
   parentBucketName ''A/B/C'' = ''A'' \<and>
   generateKeyName ''A/B/C'' ''x.dump'' = ''B/C/x.dump''"
  using key_resolution [of "''demo''" "''x.dump''" "''A''" "''B/C''"] by simp

text \<open>
  C9. A bucket address whose only \<open>/\<close> is its last byte, \<open>pre/\<close>, has the empty
  prefix: the physical bucket is \<open>pre\<close> and the object key is \<open>/fileName\<close>, with a
  leading slash, and so is never the file name alone.
\<close>

theorem trailing_slash_key:
  "CHR ''/'' \<notin> set pre \<Longrightarrow>
     parentBucketName (pre @ ''/'') = pre \<and>
     generateKeyName (pre @ ''/'') fileName = ''/'' @ fileName \<and>
     generateKeyName (pre @ ''/'') fileName \<noteq> fileName"
  using generateKeyName_nested [of pre "[]" fileName] parentBucketName_nested [of pre "[]"]
  by simp

theorem trailing_slash_key_witness:
  "CHR ''/'' \<notin> set ''demo'' \<and>
   parentBucketName ''demo/'' = ''demo'' \<and>
   generateKeyName ''demo/'' ''x.dump'' = ''/x.dump'' \<and>
   generateKeyName ''demo/'' ''x.dump'' \<noteq> ''x.dump''"
  using trailing_slash_key [of "''demo''" "''x.dump''"] by simp

subsection \<open>Size classification\<close>

lemma threshold_value: "threshold = 1073741824"
  by (simp add: threshold_def)

lemma classify_iff: "(classify sizeBytes = Multipart) = (1073741824 \<le> unat sizeBytes)"
  by (simp add: classify_def threshold_def word_le_nat_alt)

text \<open>
  C2. For every size in bytes, the classification is \<open>Multipart\<close> exactly when the size
  is at least 1073741824, and \<open>Direct\<close> exactly when it is below; 1073741824 itself is
  \<open>Multipart\<close> and 1073741823 is \<open>Direct\<close>.
\<close>

theorem classify_threshold:
  "(classify sizeBytes = Multipart) = (1073741824 \<le> unat sizeBytes) \<and>
   (classify sizeBytes = Direct) = (unat sizeBytes < 1073741824) \<and>
   classify 1073741824 = Multipart \<and> classify 1073741823 = Direct"
  by (simp add: classify_def threshold_def word_le_nat_alt not_le)

subsection \<open>Connectivity check\<close>

lemma CheckBucketAccess_plain:
  assumes "CHR ''/'' \<notin> set bucketName"
  shows "CheckBucketAccess X bucketName s =
     (case s3_ListObjectsV2 X (ListObjectsV2Input bucketName None) of
        Inl err \<Rightarrow>
          (Some (Err (''Unable to connect to s3 bucket '' @ bucketName @ '' '' @ newline @
             '' Here's why: '' @ error_text err @ newline)),
           record_call (ListObjectsV2 (ListObjectsV2Input bucketName None)) s)
      | Inr Contents \<Rightarrow>
          (None, record_call (ListObjectsV2 (ListObjectsV2Input bucketName None)) s))"
  using assms
  by (simp add: CheckBucketAccess_def strings_Contains_iff split: sum.splits)

lemma CheckBucketAccess_nested:
  assumes "CHR ''/'' \<notin> set pre"
  shows "CheckBucketAccess X (pre @ ''/'' @ post) s =
     (case s3_ListObjectsV2 X (ListObjectsV2Input pre (Some post)) of
        Inl err \<Rightarrow>
          (Some (Err (''Unable to connect to s3 bucket '' @ (pre @ ''/'' @ post) @ '' '' @ newline @
             '' Here's why: '' @ error_text err @ newline)),
           record_call (ListObjectsV2 (ListObjectsV2Input pre (Some post))) s)
      | Inr Contents \<Rightarrow>
          if Contents = []
          then (Some (Err (''s3 Bucket '' @ (pre @ ''/'' @ post) @ '' does not exist'')),
                record_call (ListObjectsV2 (ListObjectsV2Input pre (Some post))) s)
          else (None, record_call (ListObjectsV2 (ListObjectsV2Input pre (Some post))) s))"
proof -
  have "strings_Index (pre @ ''/'' @ post) CHR ''/'' = int (length pre)"
    using strings_Index_first [OF assms, of post] by simp
  then show ?thesis
    by (simp add: CheckBucketAccess_def strings_Contains_iff slice_to_def slice_from_def
        nat_add_distrib split: sum.splits)
qed

text \<open>
  C4. For a bucket address with no \<open>/\<close>, the check succeeds exactly when the listing of
  the bucket (no prefix) succeeds, whatever it returns. For a bucket address \<open>pre/post\<close>
  with no \<open>/\<close> in \<open>pre\<close>, the check succeeds exactly when the listing of bucket
  \<open>pre\<close> under prefix \<open>post\<close> succeeds and returns at least one object; an empty
  listing is the error \<^verbatim>\<open>s3 Bucket ... does not exist\<close>. In both cases a failed
  listing is the error \<^verbatim>\<open>Unable to connect to s3 bucket ...\<close>, which holds the
  bucket address and the message of the cause.
\<close>

theorem check_bucket_access:
  "(CHR ''/'' \<notin> set bucketName \<longrightarrow>
      (fst (CheckBucketAccess X bucketName s) = None) =
        (\<exists>Contents. s3_ListObjectsV2 X (ListObjectsV2Input bucketName None) = Inr Contents) \<and>
      (s3_ListObjectsV2 X (ListObjectsV2Input bucketName None) = Inl err \<longrightarrow>
         fst (CheckBucketAccess X bucketName s) =
           Some (Err (''Unable to connect to s3 bucket '' @ bucketName @ '' '' @ newline @
             '' Here's why: '' @ error_text err @ newline)))) \<and>
   (CHR ''/'' \<notin> set pre \<longrightarrow>
      (fst (CheckBucketAccess X (pre @ ''/'' @ post) s) = None) =
        (\<exists>Contents. s3_ListObjectsV2 X (ListObjectsV2Input pre (Some post)) = Inr Contents \<and>
           Contents \<noteq> []) \<and>
      (s3_ListObjectsV2 X (ListObjectsV2Input pre (Some post)) = Inr [] \<longrightarrow>
         fst (CheckBucketAccess X (pre @ ''/'' @ post) s) =
           Some (Err (''s3 Bucket '' @ (pre @ ''/'' @ post) @ '' does not exist''))) \<and>
      (s3_ListObjectsV2 X (ListObjectsV2Input pre (Some post)) = Inl err \<longrightarrow>
         fst (CheckBucketAccess X (pre @ ''/'' @ post) s) =
           Some (Err (''Unable to connect to s3 bucket '' @ (pre @ ''/'' @ post) @ '' '' @
             newline @ '' Here's why: '' @ error_text err @ newline))))"
proof (intro conjI impI)
  assume plain: "CHR ''/'' \<notin> set bucketName"
  show "(fst (CheckBucketAccess X bucketName s) = None) =
      (\<exists>Contents. s3_ListObjectsV2 X (ListObjectsV2Input bucketName None) = Inr Contents)"
    by (simp add: CheckBucketAccess_plain [OF plain] split: sum.splits)
  show "fst (CheckBucketAccess X bucketName s) =
      Some (Err (''Unable to connect to s3 bucket '' @ bucketName @ '' '' @ newline @
        '' Here's why: '' @ error_text err @ newline))"
    if "s3_ListObjectsV2 X (ListObjectsV2Input bucketName None) = Inl err"
    using that by (simp add: CheckBucketAccess_plain [OF plain])
next
  assume nested: "CHR ''/'' \<notin> set pre"
  note eq = CheckBucketAccess_nested [OF nested, of X post s]
  show "(fst (CheckBucketAccess X (pre @ ''/'' @ post) s) = None) =
      (\<exists>Contents. s3_ListObjectsV2 X (ListObjectsV2Input pre (Some post)) = Inr Contents \<and>
         Contents \<noteq> [])"
    unfolding eq by (simp split: sum.splits)
  show "fst (CheckBucketAccess X (pre @ ''/'' @ post) s) =
      Some (Err (''s3 Bucket '' @ (pre @ ''/'' @ post) @ '' does not exist''))"
    if "s3_ListObjectsV2 X (ListObjectsV2Input pre (Some post)) = Inr []"
    unfolding eq using that by simp
  show "fst (CheckBucketAccess X (pre @ ''/'' @ post) s) =
      Some (Err (''Unable to connect to s3 bucket '' @ (pre @ ''/'' @ post) @ '' '' @
        newline @ '' Here's why: '' @ error_text err @ newline))"
    if "s3_ListObjectsV2 X (ListObjectsV2Input pre (Some post)) = Inl err"
    unfolding eq using that by simp
qed

theorem check_bucket_access_witness:
  "CHR ''/'' \<notin> set ''bucket'' \<and>
   s3_ListObjectsV2 demo_outside (ListObjectsV2Input ''bucket'' None) = Inr [] \<and>
   fst (CheckBucketAccess demo_outside ''bucket'' demo_state) = None \<and>
   s3_ListObjectsV2 demo_outside (ListObjectsV2Input ''bucket'' (Some ''prefix'')) = Inr [] \<and>
   fst (CheckBucketAccess demo_outside ''bucket/prefix'' demo_state) =
     Some (Err ''s3 Bucket bucket/prefix does not exist'') \<and>
   s3_ListObjectsV2 demo_outside (ListObjectsV2Input ''demo'' (Some ''test'')) = Inr [''test/a.dump''] \<and>
   fst (CheckBucketAccess demo_outside ''demo/test'' demo_state) = None \<and>
   s3_ListObjectsV2 demo_outside (ListObjectsV2Input ''other'' None) = Inl (Err ''access denied'') \<and>
   fst (CheckBucketAccess demo_outside ''other'' demo_state) =
     Some (Err (''Unable to connect to s3 bucket other '' @ newline @
       '' Here's why: access denied'' @ newline))"
  using check_bucket_access [of "''bucket''" demo_outside demo_state "Err ''x''" "''bucket''" "''prefix''"]
    check_bucket_access [of "''other''" demo_outside demo_state "Err ''access denied''" "''demo''" "''test''"]
  by (simp add: demo_outside_def)

subsection \<open>Credentials to environment variables\<close>

lemma os_Setenv_accepts:
  "setenv_rejects X key v = None \<Longrightarrow>
     os_Setenv X key v s =
       (None, s\<lparr>environ := (environ s)(key \<mapsto> v), calls := calls s @ [Setenv key v]\<rparr>)"
  by (simp add: os_Setenv_def record_call_def Let_def)

lemma os_Setenv_rejected:
  "setenv_rejects X key v = Some err \<Longrightarrow>
     os_Setenv X key v s = (Some err, s\<lparr>calls := calls s @ [Setenv key v]\<rparr>)"
  by (simp add: os_Setenv_def record_call_def Let_def)

lemma export_first_rejected:
  assumes "Credentials_Retrieve cfg = Inr creds"
    and "setenv_rejects X ''AWS_ACCESS_KEY_ID'' (AccessKeyID creds) = Some err"
  shows "GenerateEnvVariablesFromCredentials X cfg s =
     (Some err, s\<lparr>calls := calls s @ [Setenv ''AWS_ACCESS_KEY_ID'' (AccessKeyID creds)]\<rparr>)"
  using assms by (simp add: GenerateEnvVariablesFromCredentials_def os_Setenv_rejected)

lemma export_second_rejected:
  assumes "Credentials_Retrieve cfg = Inr creds"
    and "setenv_rejects X ''AWS_ACCESS_KEY_ID'' (AccessKeyID creds) = None"
    and "setenv_rejects X ''AWS_SECRET_ACCESS_KEY'' (SecretAccessKey creds) = Some err"
  shows "GenerateEnvVariablesFromCredentials X cfg s =
     (Some err,
      s\<lparr>environ := (environ s)(''AWS_ACCESS_KEY_ID'' \<mapsto> AccessKeyID creds),
        calls := calls s @ [Setenv ''AWS_ACCESS_KEY_ID'' (AccessKeyID creds),
                            Setenv ''AWS_SECRET_ACCESS_KEY'' (SecretAccessKey creds)]\<rparr>)"
  using assms
  by (simp add: GenerateEnvVariablesFromCredentials_def os_Setenv_rejected os_Setenv_accepts)

lemma export_third_rejected:
  assumes "Credentials_Retrieve cfg = Inr creds"
    and "setenv_rejects X ''AWS_ACCESS_KEY_ID'' (AccessKeyID creds) = None"
    and "setenv_rejects X ''AWS_SECRET_ACCESS_KEY'' (SecretAccessKey creds) = None"
    and "setenv_rejects X ''AWS_REGION'' (Region cfg) = Some err"
  shows "GenerateEnvVariablesFromCredentials X cfg s =
     (Some err,
      s\<lparr>environ := (environ s)(''AWS_ACCESS_KEY_ID'' \<mapsto> AccessKeyID creds,
                                ''AWS_SECRET_ACCESS_KEY'' \<mapsto> SecretAccessKey creds),
        calls := calls s @ [Setenv ''AWS_ACCESS_KEY_ID'' (AccessKeyID creds),
                            Setenv ''AWS_SECRET_ACCESS_KEY'' (SecretAccessKey creds),
                            Setenv ''AWS_REGION'' (Region cfg)]\<rparr>)"
  using assms
  by (simp add: GenerateEnvVariablesFromCredentials_def os_Setenv_rejected os_Setenv_accepts)

lemma export_all_accepted:
  assumes "Credentials_Retrieve cfg = Inr creds"
    and "setenv_rejects X ''AWS_ACCESS_KEY_ID'' (AccessKeyID creds) = None"
    and "setenv_rejects X ''AWS_SECRET_ACCESS_KEY'' (SecretAccessKey creds) = None"
    and "setenv_rejects X ''AWS_REGION'' (Region cfg) = None"
  shows "GenerateEnvVariablesFromCredentials X cfg s =
     (None,
      s\<lparr>environ := (environ s)(''AWS_ACCESS_KEY_ID'' \<mapsto> AccessKeyID creds,
                                ''AWS_SECRET_ACCESS_KEY'' \<mapsto> SecretAccessKey creds,
                                ''AWS_REGION'' \<mapsto> Region cfg),
        calls := calls s @ [Setenv ''AWS_ACCESS_KEY_ID'' (AccessKeyID creds),
                            Setenv ''AWS_SECRET_ACCESS_KEY'' (SecretAccessKey creds),
                            Setenv ''AWS_REGION'' (Region cfg)]\<rparr>)"
  using assms
  by (simp add: GenerateEnvVariablesFromCredentials_def os_Setenv_accepts)

lemma export_retrieve_failed:
  "Credentials_Retrieve cfg = Inl err \<Longrightarrow>
     GenerateEnvVariablesFromCredentials X cfg s = (Some err, s)"
  by (simp add: GenerateEnvVariablesFromCredentials_def)

lemma export_cases:
  assumes "Credentials_Retrieve cfg = Inr creds"
  obtains
    (first) err where "setenv_rejects X ''AWS_ACCESS_KEY_ID'' (AccessKeyID creds) = Some err"
  | (second) err where "setenv_rejects X ''AWS_ACCESS_KEY_ID'' (AccessKeyID creds) = None"
      "setenv_rejects X ''AWS_SECRET_ACCESS_KEY'' (SecretAccessKey creds) = Some err"
  | (third) err where "setenv_rejects X ''AWS_ACCESS_KEY_ID'' (AccessKeyID creds) = None"
      "setenv_rejects X ''AWS_SECRET_ACCESS_KEY'' (SecretAccessKey creds) = None"
      "setenv_rejects X ''AWS_REGION'' (Region cfg) = Some err"
  | (accepted) "setenv_rejects X ''AWS_ACCESS_KEY_ID'' (AccessKeyID creds) = None"
      "setenv_rejects X ''AWS_SECRET_ACCESS_KEY'' (SecretAccessKey creds) = None"
      "setenv_rejects X ''AWS_REGION'' (Region cfg) = None"
  by (cases "setenv_rejects X ''AWS_ACCESS_KEY_ID'' (AccessKeyID creds)";
      cases "setenv_rejects X ''AWS_SECRET_ACCESS_KEY'' (SecretAccessKey creds)";
      cases "setenv_rejects X ''AWS_REGION'' (Region cfg)") auto

lemma export_success_iff:
  "(fst (GenerateEnvVariablesFromCredentials X cfg s) = None) =
      (\<exists>creds. Credentials_Retrieve cfg = Inr creds \<and>
         setenv_rejects X ''AWS_ACCESS_KEY_ID'' (AccessKeyID creds) = None \<and>
         setenv_rejects X ''AWS_SECRET_ACCESS_KEY'' (SecretAccessKey creds) = None \<and>
         setenv_rejects X ''AWS_REGION'' (Region cfg) = None)"
proof (cases "Credentials_Retrieve cfg")
  case (Inl err)
  then show ?thesis by (simp add: export_retrieve_failed)
next
  case (Inr creds)
  then show ?thesis
  proof (cases rule: export_cases [where X = X])
    case (first err)
    with Inr show ?thesis by (simp add: export_first_rejected)
  next
    case (second err)
    with Inr show ?thesis by (simp add: export_second_rejected)
  next
    case (third err)
    with Inr show ?thesis by (simp add: export_third_rejected)
  next
    case accepted
    with Inr show ?thesis by (simp add: export_all_accepted)
  qed
qed

text \<open>
  C7. The export succeeds exactly when the credentials are retrieved and the store
  accepts the three writes; any other run returns an error. After a successful run the
  environment differs from the one before in exactly the three variables
  \<^verbatim>\<open>AWS_ACCESS_KEY_ID\<close>, \<^verbatim>\<open>AWS_SECRET_ACCESS_KEY\<close> and \<^verbatim>\<open>AWS_REGION\<close>,
  set to the access key and the secret key of the retrieved credentials and to the region
  of the client's configuration, by three writes and no other call. A failed retrieval
  returns its error and changes nothing.
\<close>

theorem export_credentials:
  "(fst (GenerateEnvVariablesFromCredentials X cfg s) = None) =
      (\<exists>creds. Credentials_Retrieve cfg = Inr creds \<and>
         setenv_rejects X ''AWS_ACCESS_KEY_ID'' (AccessKeyID creds) = None \<and>
         setenv_rejects X ''AWS_SECRET_ACCESS_KEY'' (SecretAccessKey creds) = None \<and>
         setenv_rejects X ''AWS_REGION'' (Region cfg) = None) \<and>
   (Credentials_Retrieve cfg = Inr creds \<and>
    fst (GenerateEnvVariablesFromCredentials X cfg s) = None \<longrightarrow>
      environ (snd (GenerateEnvVariablesFromCredentials X cfg s)) =
        (environ s)(''AWS_ACCESS_KEY_ID'' \<mapsto> AccessKeyID creds,
                    ''AWS_SECRET_ACCESS_KEY'' \<mapsto> SecretAccessKey creds,
                    ''AWS_REGION'' \<mapsto> Region cfg) \<and>
      calls (snd (GenerateEnvVariablesFromCredentials X cfg s)) =
        calls s @ [Setenv ''AWS_ACCESS_KEY_ID'' (AccessKeyID creds),
                   Setenv ''AWS_SECRET_ACCESS_KEY'' (SecretAccessKey creds),
                   Setenv ''AWS_REGION'' (Region cfg)] \<and>
      handles (snd (GenerateEnvVariablesFromCredentials X cfg s)) = handles s) \<and>
   (Credentials_Retrieve cfg = Inl err \<longrightarrow>
      GenerateEnvVariablesFromCredentials X cfg s = (Some err, s))"
proof (intro conjI impI)
  show "(fst (GenerateEnvVariablesFromCredentials X cfg s) = None) =
      (\<exists>creds. Credentials_Retrieve cfg = Inr creds \<and>
         setenv_rejects X ''AWS_ACCESS_KEY_ID'' (AccessKeyID creds) = None \<and>
         setenv_rejects X ''AWS_SECRET_ACCESS_KEY'' (SecretAccessKey creds) = None \<and>
         setenv_rejects X ''AWS_REGION'' (Region cfg) = None)"
    by (rule export_success_iff)
next
  assume "Credentials_Retrieve cfg = Inl err"
  then show "GenerateEnvVariablesFromCredentials X cfg s = (Some err, s)"
    by (rule export_retrieve_failed)
next
  assume ok: "Credentials_Retrieve cfg = Inr creds \<and>
    fst (GenerateEnvVariablesFromCredentials X cfg s) = None"
  then have acc: "setenv_rejects X ''AWS_ACCESS_KEY_ID'' (AccessKeyID creds) = None"
      "setenv_rejects X ''AWS_SECRET_ACCESS_KEY'' (SecretAccessKey creds) = None"
      "setenv_rejects X ''AWS_REGION'' (Region cfg) = None"
    using export_success_iff [of X cfg s] by auto
  note eq = export_all_accepted [OF conjunct1 [OF ok] acc, of s]
  show "environ (snd (GenerateEnvVariablesFromCredentials X cfg s)) =
        (environ s)(''AWS_ACCESS_KEY_ID'' \<mapsto> AccessKeyID creds,
                    ''AWS_SECRET_ACCESS_KEY'' \<mapsto> SecretAccessKey creds,
                    ''AWS_REGION'' \<mapsto> Region cfg)"
    by (simp add: eq)
  show "calls (snd (GenerateEnvVariablesFromCredentials X cfg s)) =
        calls s @ [Setenv ''AWS_ACCESS_KEY_ID'' (AccessKeyID creds),
                   Setenv ''AWS_SECRET_ACCESS_KEY'' (SecretAccessKey creds),
                   Setenv ''AWS_REGION'' (Region cfg)]"
    by (simp add: eq)
  show "handles (snd (GenerateEnvVariablesFromCredentials X cfg s)) = handles s"
    by (simp add: eq)
qed

theorem export_credentials_witness:
  "Credentials_Retrieve demo_config = Inr \<lparr>AccessKeyID = ''AKIA'', SecretAccessKey = ''secret''\<rparr> \<and>
   fst (GenerateEnvVariablesFromCredentials demo_outside demo_config demo_state) = None \<and>
   environ (snd (GenerateEnvVariablesFromCredentials demo_outside demo_config demo_state)) =
     [''LOCATION'' \<mapsto> ''/backups'', ''AWS_ACCESS_KEY_ID'' \<mapsto> ''AKIA'',
      ''AWS_SECRET_ACCESS_KEY'' \<mapsto> ''secret'', ''AWS_REGION'' \<mapsto> ''eu-west-1''] \<and>
   calls (snd (GenerateEnvVariablesFromCredentials demo_outside demo_config demo_state)) =
     [Setenv ''AWS_ACCESS_KEY_ID'' ''AKIA'', Setenv ''AWS_SECRET_ACCESS_KEY'' ''secret'',
      Setenv ''AWS_REGION'' ''eu-west-1'']"
  using export_credentials [of demo_outside demo_config demo_state
      "\<lparr>AccessKeyID = ''AKIA'', SecretAccessKey = ''secret''\<rparr>" "Err ''x''"]
  by (simp add: demo_outside_def demo_config_def demo_state_def)

text \<open>
  C10. With credentials retrieved, the writes made are an initial part of the sequence
  access key, secret key, region. A rejected write ends the run with its error, and the
  writes before it stay: when the secret key is rejected, the access key is set and the
  region is never written; when the region is rejected, both keys are set.
\<close>

theorem export_credentials_not_atomic:
  assumes "Credentials_Retrieve cfg = Inr creds"
  shows
  "(\<exists>n\<le>3. calls (snd (GenerateEnvVariablesFromCredentials X cfg s)) =
      calls s @ take n [Setenv ''AWS_ACCESS_KEY_ID'' (AccessKeyID creds),
                        Setenv ''AWS_SECRET_ACCESS_KEY'' (SecretAccessKey creds),
                        Setenv ''AWS_REGION'' (Region cfg)]) \<and>
   (setenv_rejects X ''AWS_ACCESS_KEY_ID'' (AccessKeyID creds) = Some err \<longrightarrow>
      GenerateEnvVariablesFromCredentials X cfg s =
        (Some err, s\<lparr>calls := calls s @ [Setenv ''AWS_ACCESS_KEY_ID'' (AccessKeyID creds)]\<rparr>)) \<and>
   (setenv_rejects X ''AWS_ACCESS_KEY_ID'' (AccessKeyID creds) = None \<and>
    setenv_rejects X ''AWS_SECRET_ACCESS_KEY'' (SecretAccessKey creds) = Some err \<longrightarrow>
      GenerateEnvVariablesFromCredentials X cfg s =
        (Some err,
         s\<lparr>environ := (environ s)(''AWS_ACCESS_KEY_ID'' \<mapsto> AccessKeyID creds),
           calls := calls s @ [Setenv ''AWS_ACCESS_KEY_ID'' (AccessKeyID creds),
                               Setenv ''AWS_SECRET_ACCESS_KEY'' (SecretAccessKey creds)]\<rparr>)) \<and>
   (setenv_rejects X ''AWS_ACCESS_KEY_ID'' (AccessKeyID creds) = None \<and>
    setenv_rejects X ''AWS_SECRET_ACCESS_KEY'' (SecretAccessKey creds) = None \<and>
    setenv_rejects X ''AWS_REGION'' (Region cfg) = Some err \<longrightarrow>
      GenerateEnvVariablesFromCredentials X cfg s =
        (Some err,
         s\<lparr>environ := (environ s)(''AWS_ACCESS_KEY_ID'' \<mapsto> AccessKeyID creds,
                                   ''AWS_SECRET_ACCESS_KEY'' \<mapsto> SecretAccessKey creds),
           calls := calls s @ [Setenv ''AWS_ACCESS_KEY_ID'' (AccessKeyID creds),
                               Setenv ''AWS_SECRET_ACCESS_KEY'' (SecretAccessKey creds),
                               Setenv ''AWS_REGION'' (Region cfg)]\<rparr>))"
proof (intro conjI impI)
  show "\<exists>n\<le>3. calls (snd (GenerateEnvVariablesFromCredentials X cfg s)) =
      calls s @ take n [Setenv ''AWS_ACCESS_KEY_ID'' (AccessKeyID creds),
                        Setenv ''AWS_SECRET_ACCESS_KEY'' (SecretAccessKey creds),
                        Setenv ''AWS_REGION'' (Region cfg)]"
    using assms
  proof (cases rule: export_cases [where X = X])
    case (first e)
    then show ?thesis
      by (intro exI [of _ 1]) (simp add: export_first_rejected [OF assms])
  next
    case (second e)
    then show ?thesis
      by (intro exI [of _ 2]) (simp add: export_second_rejected [OF assms])
  next
    case (third e)
    then show ?thesis
      by (intro exI [of _ 3]) (simp add: export_third_rejected [OF assms])
  next
    case accepted
    then show ?thesis
      by (intro exI [of _ 3]) (simp add: export_all_accepted [OF assms])
  qed
qed (simp_all add: export_first_rejected [OF assms] export_second_rejected [OF assms]
      export_third_rejected [OF assms])

theorem export_credentials_not_atomic_witness:
  "Credentials_Retrieve broken_config =
     Inr \<lparr>AccessKeyID = ''AKIA'', SecretAccessKey = [CHR ''s'', CHR 0x00]\<rparr> \<and>
   setenv_rejects demo_outside ''AWS_ACCESS_KEY_ID'' ''AKIA'' = None \<and>
   setenv_rejects demo_outside ''AWS_SECRET_ACCESS_KEY'' [CHR ''s'', CHR 0x00] =
     Some (Err ''invalid argument'') \<and>
   fst (GenerateEnvVariablesFromCredentials demo_outside broken_config demo_state) =
     Some (Err ''invalid argument'') \<and>
   environ (snd (GenerateEnvVariablesFromCredentials demo_outside broken_config demo_state)) =
     [''LOCATION'' \<mapsto> ''/backups'', ''AWS_ACCESS_KEY_ID'' \<mapsto> ''AKIA''] \<and>
   calls (snd (GenerateEnvVariablesFromCredentials demo_outside broken_config demo_state)) =
     [Setenv ''AWS_ACCESS_KEY_ID'' ''AKIA'',
      Setenv ''AWS_SECRET_ACCESS_KEY'' [CHR ''s'', CHR 0x00]]"
  using export_credentials_not_atomic [of broken_config
      "\<lparr>AccessKeyID = ''AKIA'', SecretAccessKey = [CHR ''s'', CHR 0x00]\<rparr>"
      demo_outside demo_state "Err ''invalid argument''"]
  by (simp add: demo_outside_def broken_config_def demo_state_def)

subsection \<open>Upload\<close>

text \<open>
  The loop body with every call written out: one result and one final state for each
  answer of the outside.
\<close>

lemma UploadFile_body_flat:
  assumes path: "filePath = Sprintf_slash location fileName"
    and input: "input = PutObjectInput parentBucket (generateKeyName bucketName fileName) filePath"
  shows "UploadFile_body X bucketName parentBucket location fileName s =
     (case os_Stat X filePath of
        Inl err \<Rightarrow> (Some err, s\<lparr>calls := calls s @ [Stat filePath]\<rparr>)
      | Inr sizeBytes \<Rightarrow>
          (case os_Open X filePath of
             Some err \<Rightarrow>
               (Some (Err ((if classify sizeBytes = Multipart then ''Couldn't open large file ''
                            else ''Couldn't open file '') @ filePath @
                  '' to upload. Here's why: '' @ error_text err @ newline)),
                s\<lparr>calls := calls s @ [Stat filePath, Open filePath]\<rparr>)
           | None \<Rightarrow>
               if classify sizeBytes = Multipart
               then (case s3_Upload X 1073741824 input of
                       Some err \<Rightarrow>
                         (Some (Err (''Couldn't upload large file '' @ filePath @ '' to '' @
                            bucketName @ '':'' @ fileName @ ''. Here's why: '' @
                            error_text err @ newline)),
                          s\<lparr>calls := calls s @ [Stat filePath, Open filePath,
                                Upload 1073741824 input, Close filePath]\<rparr>)
                     | None \<Rightarrow>
                         (None,
                          s\<lparr>calls := calls s @ [Stat filePath, Open filePath,
                                Upload 1073741824 input, Close filePath]\<rparr>))
               else (case s3_PutObject X input of
                       Some err \<Rightarrow>
                         (Some (Err (''Couldn't upload file '' @ filePath @ '' to '' @
                            bucketName @ '':'' @ fileName @ ''. Here's why: '' @
                            error_text err @ newline)),
                          s\<lparr>handles := filePath # handles s,
                            calls := calls s @ [Stat filePath, Open filePath, PutObject input]\<rparr>)
                     | None \<Rightarrow>
                         (None,
                          s\<lparr>calls := calls s @ [Stat filePath, Open filePath,
                                PutObject input, Close filePath]\<rparr>))))"
  unfolding path input
  by (simp add: UploadFile_body_def UploadLargeObject_def IsFileBigger_def file_Open_def
      file_Close_def record_call_def Let_def split: sum.splits option.splits)

lemma UploadFile_body_succeeds:
  "(fst (UploadFile_body X bucketName parentBucket location fileName s) = None) =
     file_succeeds X bucketName parentBucket location fileName"
  by (simp add: UploadFile_body_flat [OF refl refl] file_succeeds_def Let_def
      split: sum.splits option.splits)

lemma UploadFile_body_trace:
  "\<exists>es. calls (snd (UploadFile_body X bucketName parentBucket location fileName s)) =
          calls s @ es \<and>
        (\<forall>e \<in> set es. event_path e = Some (Sprintf_slash location fileName))"
  by (simp add: UploadFile_body_flat [OF refl refl] split: sum.splits option.splits)

lemma UploadFile_loop_append:
  "UploadFile_loop X bucketName parentBucket location (xs @ ys) s =
     (case UploadFile_loop X bucketName parentBucket location xs s of
        (Some err, s1) \<Rightarrow> (Some err, s1)
      | (None, s1) \<Rightarrow> UploadFile_loop X bucketName parentBucket location ys s1)"
  by (induction xs arbitrary: s) (auto split: prod.splits option.splits)

lemma UploadFile_loop_succeeds:
  "(fst (UploadFile_loop X bucketName parentBucket location fileNames s) = None) =
     (\<forall>fileName \<in> set fileNames. file_succeeds X bucketName parentBucket location fileName)"
proof (induction fileNames arbitrary: s)
  case Nil
  show ?case by simp
next
  case (Cons fileName rest)
  obtain r s1 where body: "UploadFile_body X bucketName parentBucket location fileName s = (r, s1)"
    by (cases "UploadFile_body X bucketName parentBucket location fileName s")
  have r: "(r = None) = file_succeeds X bucketName parentBucket location fileName"
    using UploadFile_body_succeeds [of X bucketName parentBucket location fileName s] body
    by simp
  show ?case
  proof (cases r)
    case None
    with body r Cons.IH [of s1] show ?thesis by simp
  next
    case (Some err)
    with body r show ?thesis by simp
  qed
qed

lemma UploadFile_loop_events:
  assumes body: "\<And>fileName s. \<exists>es.
      calls (snd (UploadFile_body X bucketName parentBucket location fileName s)) = calls s @ es \<and>
      (\<forall>e \<in> set es. P fileName e)"
  shows "\<exists>es. calls (snd (UploadFile_loop X bucketName parentBucket location fileNames s)) =
          calls s @ es \<and>
        (\<forall>e \<in> set es. \<exists>fileName \<in> set fileNames. P fileName e)"
proof (induction fileNames arbitrary: s)
  case Nil
  show ?case by simp
next
  case (Cons fileName rest)
  obtain r s1 where run: "UploadFile_body X bucketName parentBucket location fileName s = (r, s1)"
    by (cases "UploadFile_body X bucketName parentBucket location fileName s")
  from body [of fileName s] run
  obtain es where es: "calls s1 = calls s @ es" "\<forall>e \<in> set es. P fileName e"
    by auto
  show ?case
  proof (cases r)
    case (Some err)
    with run es show ?thesis by auto
  next
    case None
    from Cons.IH [of s1] obtain es' where es':
      "calls (snd (UploadFile_loop X bucketName parentBucket location rest s1)) = calls s1 @ es'"
      "\<forall>e \<in> set es'. \<exists>g \<in> set rest. P g e"
      by auto
    have "calls (snd (UploadFile_loop X bucketName parentBucket location (fileName # rest) s)) =
        calls s @ (es @ es')"
      using None run es(1) es'(1) by simp
    moreover have "\<forall>e \<in> set (es @ es'). \<exists>g \<in> set (fileName # rest). P g e"
      using es(2) es'(2) by auto
    ultimately show ?thesis by blast
  qed
qed

lemma UploadFile_loop_trace:
  "\<exists>es. calls (snd (UploadFile_loop X bucketName parentBucket location fileNames s)) =
          calls s @ es \<and>
        (\<forall>e \<in> set es. \<exists>fileName \<in> set fileNames.
           event_path e = Some (Sprintf_slash location fileName))"
  by (rule UploadFile_loop_events) (rule UploadFile_body_trace)

lemma UploadFile_loop_abort:
  assumes "\<forall>g \<in> set before. file_succeeds X bucketName parentBucket location g"
    and "\<not> file_succeeds X bucketName parentBucket location fileName"
  shows "UploadFile_loop X bucketName parentBucket location (before @ fileName # after) s =
     UploadFile_body X bucketName parentBucket location fileName
       (snd (UploadFile_loop X bucketName parentBucket location before s))"
proof -
  obtain s1 where before: "UploadFile_loop X bucketName parentBucket location before s = (None, s1)"
    using UploadFile_loop_succeeds [of X bucketName parentBucket location before s] assms(1)
    by (cases "UploadFile_loop X bucketName parentBucket location before s") auto
  obtain r s2 where body: "UploadFile_body X bucketName parentBucket location fileName s1 = (r, s2)"
    by (cases "UploadFile_body X bucketName parentBucket location fileName s1")
  then have "r \<noteq> None"
    using UploadFile_body_succeeds [of X bucketName parentBucket location fileName s1] assms(2)
    by auto
  then obtain err where "r = Some err" by auto
  with before body show ?thesis
    by (simp add: UploadFile_loop_append)
qed

lemma new_calls_append: "calls s' = calls s @ es \<Longrightarrow> new_calls s s' = es"
  by (simp add: new_calls_def)

lemma UploadFile_unfold:
  "UploadFile X fileNames bucketName s =
     UploadFile_loop X bucketName (parentBucketName bucketName) (os_Getenv s ''LOCATION'')
       fileNames s"
  by (simp add: UploadFile_def)

lemma UploadFile_loop_single:
  "UploadFile_loop X bucketName parentBucket location [fileName] s =
     UploadFile_body X bucketName parentBucket location fileName s"
  by (cases "UploadFile_body X bucketName parentBucket location fileName s")
    (auto split: option.splits)

lemmas demo_eval =
  UploadFile_def UploadFile_body_flat [OF refl refl] demo_outside_def demo_state_def
  os_Getenv_def parentBucketName_def generateKeyName_def strings_Contains_def
  Sprintf_slash_def slice_to_def slice_from_def newline_def file_succeeds_def
  classify_def threshold_def new_calls_def Let_def

text \<open>
  C3. A file goes through exactly when the loop body returns no error for it, in any
  state. \<^verbatim>\<open>UploadFile\<close> returns no error exactly when every file goes through. When
  the files \<open>before\<close> go through and \<open>fileName\<close> does not, \<^verbatim>\<open>UploadFile\<close> on
  \<open>before @ fileName # after\<close> returns what the loop body returns for \<open>fileName\<close>
  after \<open>before\<close>, an error; the result and the final state are those of the run on
  \<open>before @ [fileName]\<close> alone, and every call made concerns a file of
  \<open>before @ [fileName]\<close>: nothing is done for the files of \<open>after\<close>.
\<close>

theorem upload_fail_fast:
  assumes "parentBucket = parentBucketName bucketName"
    and "location = os_Getenv s ''LOCATION''"
  shows
  "(\<forall>s'. (fst (UploadFile_body X bucketName parentBucket location fileName s') = None) =
      file_succeeds X bucketName parentBucket location fileName) \<and>
   (fst (UploadFile X fileNames bucketName s) = None) =
      (\<forall>g \<in> set fileNames. file_succeeds X bucketName parentBucket location g) \<and>
   ((\<forall>g \<in> set before. file_succeeds X bucketName parentBucket location g) \<and>
    \<not> file_succeeds X bucketName parentBucket location fileName \<longrightarrow>
      UploadFile X (before @ fileName # after) bucketName s =
        UploadFile_body X bucketName parentBucket location fileName
          (snd (UploadFile X before bucketName s)) \<and>
      UploadFile X (before @ fileName # after) bucketName s =
        UploadFile X (before @ [fileName]) bucketName s \<and>
      fst (UploadFile X (before @ fileName # after) bucketName s) \<noteq> None \<and>
      (\<forall>e \<in> set (new_calls s (snd (UploadFile X (before @ fileName # after) bucketName s))).
         \<exists>g \<in> set (before @ [fileName]). event_path e = Some (Sprintf_slash location g)))"
proof (intro conjI impI allI)
  fix s'
  show "(fst (UploadFile_body X bucketName parentBucket location fileName s') = None) =
      file_succeeds X bucketName parentBucket location fileName"
    by (rule UploadFile_body_succeeds)
next
  show "(fst (UploadFile X fileNames bucketName s) = None) =
      (\<forall>g \<in> set fileNames. file_succeeds X bucketName parentBucket location g)"
    unfolding UploadFile_unfold assms by (rule UploadFile_loop_succeeds)
next
  assume first: "(\<forall>g \<in> set before. file_succeeds X bucketName parentBucket location g) \<and>
    \<not> file_succeeds X bucketName parentBucket location fileName"
  have abort: "UploadFile X (before @ fileName # rest) bucketName s =
      UploadFile_body X bucketName parentBucket location fileName
        (snd (UploadFile X before bucketName s))" for rest
    using UploadFile_loop_abort [of before X bucketName parentBucket location fileName rest s]
      first
    by (simp add: UploadFile_unfold assms)
  show "UploadFile X (before @ fileName # after) bucketName s =
      UploadFile_body X bucketName parentBucket location fileName
        (snd (UploadFile X before bucketName s))"
    by (rule abort)
  show same: "UploadFile X (before @ fileName # after) bucketName s =
      UploadFile X (before @ [fileName]) bucketName s"
    by (simp add: abort [of after] abort [of "[]"])
  show "fst (UploadFile X (before @ fileName # after) bucketName s) \<noteq> None"
    using first by (simp add: abort UploadFile_body_succeeds)
  from UploadFile_loop_trace [of X bucketName parentBucket location "before @ [fileName]" s]
  obtain es where es:
    "calls (snd (UploadFile X (before @ [fileName]) bucketName s)) = calls s @ es"
    "\<forall>e \<in> set es. \<exists>g \<in> set (before @ [fileName]).
       event_path e = Some (Sprintf_slash location g)"
    unfolding UploadFile_unfold assms by blast
  show "\<forall>e \<in> set (new_calls s (snd (UploadFile X (before @ fileName # after) bucketName s))).
      \<exists>g \<in> set (before @ [fileName]). event_path e = Some (Sprintf_slash location g)"
    unfolding same new_calls_append [OF es(1)] by (rule es(2))
qed

theorem upload_fail_fast_witness:
  "parentBucketName ''demo/test/test2'' = ''demo'' \<and>
   os_Getenv demo_state ''LOCATION'' = ''/backups'' \<and>
   file_succeeds demo_outside ''demo/test/test2'' ''demo'' ''/backups'' ''a.dump'' \<and>
   \<not> file_succeeds demo_outside ''demo/test/test2'' ''demo'' ''/backups'' ''locked.dump'' \<and>
   UploadFile demo_outside [''a.dump'', ''locked.dump'', ''c.dump''] ''demo/test/test2''
       demo_state =
     (Some (Err (''Couldn't open file /backups/locked.dump to upload. Here's why: '' @
        ''permission denied'' @ newline)),
      demo_state\<lparr>calls :=
        [Stat ''/backups/a.dump'', Open ''/backups/a.dump'',
         PutObject (PutObjectInput ''demo'' ''test/test2/a.dump'' ''/backups/a.dump''),
         Close ''/backups/a.dump'',
         Stat ''/backups/locked.dump'', Open ''/backups/locked.dump'']\<rparr>) \<and>
   UploadFile demo_outside [''a.dump'', ''locked.dump'', ''c.dump''] ''demo/test/test2''
       demo_state =
     UploadFile demo_outside [''a.dump'', ''locked.dump''] ''demo/test/test2'' demo_state \<and>
   fst (UploadFile demo_outside [''a.dump'', ''b.dump''] ''demo/test/test2'' demo_state) = None"
  using upload_fail_fast [where parentBucket = "''demo''" and bucketName = "''demo/test/test2''"
      and location = "''/backups''" and s = demo_state and X = demo_outside
      and before = "[''a.dump'']" and fileName = "''locked.dump''" and after = "[''c.dump'']"
      and fileNames = "[''a.dump'', ''b.dump'']"]
  by (simp add: demo_eval)

lemma UploadLargeObject_closes:
  "handles (snd (UploadLargeObject X fileName location bucketName parentBucket s)) = handles s"
  by (simp add: UploadLargeObject_def file_Open_def file_Close_def record_call_def Let_def
      split: option.splits)

lemma direct_upload_failure_handle:
  assumes "os_Stat X (Sprintf_slash location fileName) = Inr sizeBytes"
    and "classify sizeBytes = Direct"
    and "os_Open X (Sprintf_slash location fileName) = None"
    and "s3_PutObject X (PutObjectInput parentBucket (generateKeyName bucketName fileName)
           (Sprintf_slash location fileName)) = Some err"
  shows "handles (snd (UploadFile_body X bucketName parentBucket location fileName s)) =
     Sprintf_slash location fileName # handles s"
  using assms by (simp add: UploadFile_body_flat [OF refl refl])

lemma direct_upload_success_handle:
  assumes "os_Stat X (Sprintf_slash location fileName) = Inr sizeBytes"
    and "classify sizeBytes = Direct"
    and "os_Open X (Sprintf_slash location fileName) = None"
    and "s3_PutObject X (PutObjectInput parentBucket (generateKeyName bucketName fileName)
           (Sprintf_slash location fileName)) = None"
  shows "handles (snd (UploadFile_body X bucketName parentBucket location fileName s)) =
     handles s"
  using assms by (simp add: UploadFile_body_flat [OF refl refl])

text \<open>
  C5. The direct path does not close the file when \<^verbatim>\<open>PutObject\<close> fails: for the
  10-byte file \<^verbatim>\<open>rejected.dump\<close>, whose upload the service answers with an error,
  \<^verbatim>\<open>UploadFile\<close> returns the error with the handle of
  \<^verbatim>\<open>/backups/rejected.dump\<close> still open and no \<open>Close\<close> among the calls. The
  multipart path, on the 2 GiB file \<^verbatim>\<open>bigrejected.dump\<close> whose upload fails the same
  way, closes the file.
\<close>

theorem direct_upload_failure_leaves_file_open:
  "UploadFile demo_outside [''rejected.dump''] ''demo'' demo_state =
     (Some (Err (''Couldn't upload file /backups/rejected.dump to demo:rejected.dump. '' @
        ''Here's why: status 500'' @ newline)),
      demo_state\<lparr>handles := [''/backups/rejected.dump''],
        calls := [Stat ''/backups/rejected.dump'', Open ''/backups/rejected.dump'',
          PutObject (PutObjectInput ''demo'' ''rejected.dump'' ''/backups/rejected.dump'')]\<rparr>) \<and>
   UploadFile demo_outside [''bigrejected.dump''] ''demo'' demo_state =
     (Some (Err (''Couldn't upload large file /backups/bigrejected.dump to '' @
        ''demo:bigrejected.dump. Here's why: status 500'' @ newline)),
      demo_state\<lparr>handles := [],
        calls := [Stat ''/backups/bigrejected.dump'', Open ''/backups/bigrejected.dump'',
          Upload 1073741824
            (PutObjectInput ''demo'' ''bigrejected.dump'' ''/backups/bigrejected.dump''),
          Close ''/backups/bigrejected.dump'']\<rparr>)"
  by (simp add: demo_eval)

lemma UploadFile_body_requests:
  "\<exists>es. calls (snd (UploadFile_body X bucketName parentBucket location fileName s)) =
          calls s @ es \<and>
        (\<forall>e \<in> set es.
           (\<forall>PartSize input. e = Upload PartSize input \<longrightarrow>
              PartSize = 1073741824 \<and>
              (\<exists>sizeBytes. os_Stat X (Sprintf_slash location fileName) = Inr sizeBytes \<and>
                 classify sizeBytes = Multipart) \<and>
              input = PutObjectInput parentBucket (generateKeyName bucketName fileName)
                        (Sprintf_slash location fileName)) \<and>
           (\<forall>input. e = PutObject input \<longrightarrow>
              (\<exists>sizeBytes. os_Stat X (Sprintf_slash location fileName) = Inr sizeBytes \<and>
                 classify sizeBytes = Direct) \<and>
              input = PutObjectInput parentBucket (generateKeyName bucketName fileName)
                        (Sprintf_slash location fileName)))"
proof (cases "os_Stat X (Sprintf_slash location fileName)")
  case (Inl err)
  then show ?thesis by (simp add: UploadFile_body_flat [OF refl refl])
next
  case (Inr sizeBytes)
  then show ?thesis
    by (cases "classify sizeBytes")
      (simp_all add: UploadFile_body_flat [OF refl refl] split: option.splits)
qed

lemma UploadFile_requests:
  "\<exists>es. calls (snd (UploadFile X fileNames bucketName s)) = calls s @ es \<and>
     (\<forall>e \<in> set es. \<exists>fileName \<in> set fileNames.
        (\<forall>PartSize input. e = Upload PartSize input \<longrightarrow>
           PartSize = 1073741824 \<and>
           (\<exists>sizeBytes.
              os_Stat X (Sprintf_slash (os_Getenv s ''LOCATION'') fileName) = Inr sizeBytes \<and>
              classify sizeBytes = Multipart) \<and>
           input = PutObjectInput (parentBucketName bucketName)
                     (generateKeyName bucketName fileName)
                     (Sprintf_slash (os_Getenv s ''LOCATION'') fileName)) \<and>
        (\<forall>input. e = PutObject input \<longrightarrow>
           (\<exists>sizeBytes.
              os_Stat X (Sprintf_slash (os_Getenv s ''LOCATION'') fileName) = Inr sizeBytes \<and>
              classify sizeBytes = Direct) \<and>
           input = PutObjectInput (parentBucketName bucketName)
                     (generateKeyName bucketName fileName)
                     (Sprintf_slash (os_Getenv s ''LOCATION'') fileName)))"
  unfolding UploadFile_unfold
  by (rule UploadFile_loop_events) (rule UploadFile_body_requests)

text \<open>
  C6. A file that stat reports as \<open>Multipart\<close> and that opens is sent by one
  \<open>Upload\<close> call with part size 1073741824 to the physical bucket and the object
  key that key resolution gives for the bucket address and the file name, between the
  open and the close of the file. In any run of \<^verbatim>\<open>UploadFile\<close>, every \<open>Upload\<close>
  call has part size 1073741824 (1024 * 1024 * 1024 as an unsigned number) and is for
  a file of the list that stat reports as \<open>Multipart\<close>, with that bucket and that key.
\<close>

theorem multipart_upload_target:
  assumes "parentBucket = parentBucketName bucketName"
    and "location = os_Getenv s ''LOCATION''"
  shows
  "(os_Stat X (Sprintf_slash location fileName) = Inr sizeBytes \<and>
    classify sizeBytes = Multipart \<and>
    os_Open X (Sprintf_slash location fileName) = None \<longrightarrow>
      new_calls s (snd (UploadFile X [fileName] bucketName s)) =
        [Stat (Sprintf_slash location fileName), Open (Sprintf_slash location fileName),
         Upload 1073741824
           (PutObjectInput parentBucket (generateKeyName bucketName fileName)
              (Sprintf_slash location fileName)),
         Close (Sprintf_slash location fileName)]) \<and>
   (Upload PartSize input \<in> set (new_calls s (snd (UploadFile X fileNames bucketName s))) \<longrightarrow>
      PartSize = 1073741824 \<and> unat PartSize = 1024 * 1024 * 1024 \<and>
      (\<exists>g \<in> set fileNames.
         (\<exists>sizeBytes. os_Stat X (Sprintf_slash location g) = Inr sizeBytes \<and>
            classify sizeBytes = Multipart) \<and>
         input = PutObjectInput parentBucket (generateKeyName bucketName g)
                   (Sprintf_slash location g)))"
proof (intro conjI impI)
  assume big: "os_Stat X (Sprintf_slash location fileName) = Inr sizeBytes \<and>
    classify sizeBytes = Multipart \<and> os_Open X (Sprintf_slash location fileName) = None"
  then show "new_calls s (snd (UploadFile X [fileName] bucketName s)) =
      [Stat (Sprintf_slash location fileName), Open (Sprintf_slash location fileName),
       Upload 1073741824
         (PutObjectInput parentBucket (generateKeyName bucketName fileName)
            (Sprintf_slash location fileName)),
       Close (Sprintf_slash location fileName)]"
    unfolding UploadFile_unfold UploadFile_loop_single assms
    by (simp add: UploadFile_body_flat [OF refl refl] new_calls_def split: option.splits)
next
  assume sent: "Upload PartSize input \<in>
    set (new_calls s (snd (UploadFile X fileNames bucketName s)))"
  from UploadFile_requests [of X fileNames bucketName s]
  obtain es where es: "calls (snd (UploadFile X fileNames bucketName s)) = calls s @ es"
    and each: "\<forall>e \<in> set es. \<exists>fileName \<in> set fileNames.
        (\<forall>PartSize input. e = Upload PartSize input \<longrightarrow>
           PartSize = 1073741824 \<and>
           (\<exists>sizeBytes.
              os_Stat X (Sprintf_slash (os_Getenv s ''LOCATION'') fileName) = Inr sizeBytes \<and>
              classify sizeBytes = Multipart) \<and>
           input = PutObjectInput (parentBucketName bucketName)
                     (generateKeyName bucketName fileName)
                     (Sprintf_slash (os_Getenv s ''LOCATION'') fileName)) \<and>
        (\<forall>input. e = PutObject input \<longrightarrow>
           (\<exists>sizeBytes.
              os_Stat X (Sprintf_slash (os_Getenv s ''LOCATION'') fileName) = Inr sizeBytes \<and>
              classify sizeBytes = Direct) \<and>
           input = PutObjectInput (parentBucketName bucketName)
                     (generateKeyName bucketName fileName)
                     (Sprintf_slash (os_Getenv s ''LOCATION'') fileName))"
    by blast
  from sent have mem: "Upload PartSize input \<in> set es"
    by (simp add: new_calls_append [OF es])
  from each mem obtain g where g: "g \<in> set fileNames"
    "PartSize = 1073741824"
    "\<exists>sizeBytes. os_Stat X (Sprintf_slash location g) = Inr sizeBytes \<and>
       classify sizeBytes = Multipart"
    "input = PutObjectInput parentBucket (generateKeyName bucketName g)
       (Sprintf_slash location g)"
    unfolding assms by blast
  show "PartSize = 1073741824" by (rule g(2))
  show "unat PartSize = 1024 * 1024 * 1024" by (simp add: g(2))
  show "\<exists>g \<in> set fileNames.
      (\<exists>sizeBytes. os_Stat X (Sprintf_slash location g) = Inr sizeBytes \<and>
         classify sizeBytes = Multipart) \<and>
      input = PutObjectInput parentBucket (generateKeyName bucketName g)
                (Sprintf_slash location g)"
    using g(1,3,4) by blast
qed

theorem multipart_upload_target_witness:
  "parentBucketName ''demo'' = ''demo'' \<and>
   os_Getenv demo_state ''LOCATION'' = ''/backups'' \<and>
   os_Stat demo_outside ''/backups/big.dump'' = Inr 2147483648 \<and>
   classify 2147483648 = Multipart \<and>
   os_Open demo_outside ''/backups/big.dump'' = None \<and>
   new_calls demo_state (snd (UploadFile demo_outside [''big.dump''] ''demo'' demo_state)) =
     [Stat ''/backups/big.dump'', Open ''/backups/big.dump'',
      Upload 1073741824 (PutObjectInput ''demo'' ''big.dump'' ''/backups/big.dump''),
      Close ''/backups/big.dump''] \<and>
   Upload 1073741824 (PutObjectInput ''demo'' ''big.dump'' ''/backups/big.dump'') \<in>
     set (new_calls demo_state
       (snd (UploadFile demo_outside [''a.dump'', ''big.dump''] ''demo'' demo_state)))"
  using multipart_upload_target [where parentBucket = "''demo''" and bucketName = "''demo''"
      and location = "''/backups''" and s = demo_state and X = demo_outside
      and fileName = "''big.dump''" and sizeBytes = 2147483648
      and fileNames = "[''a.dump'', ''big.dump'']" and PartSize = 1073741824
      and input = "PutObjectInput ''demo'' ''big.dump'' ''/backups/big.dump''"]
  by (simp add: demo_eval)

lemma IsFileBigger_result:
  "fst (IsFileBigger X filePath s) =
     (case os_Stat X filePath of
        Inl err \<Rightarrow> (False, Some err)
      | Inr sizeBytes \<Rightarrow> (classify sizeBytes = Multipart, None))"
  by (simp add: IsFileBigger_def Let_def split: sum.splits)

text \<open>
  C8. Key resolution and classification give equal results on equal inputs, and nothing
  but their inputs reaches them: in a run of \<^verbatim>\<open>UploadFile\<close> from any state, with
  any outside, every \<open>PutObject\<close> and \<open>Upload\<close> request carries the bucket
  \<open>parentBucketName bucketName\<close> and the key \<open>generateKeyName bucketName g\<close> of a
  file \<open>g\<close> of the list; the answer of \<^verbatim>\<open>IsFileBigger\<close> is the same in any two
  states and under any two outsides that report the same stat for the path, and when
  stat reports a size it is the classification of that size.
\<close>

theorem resolve_classify_pure:
  "(bucketName = bucketName' \<and> fileName = fileName' \<longrightarrow>
      parentBucketName bucketName = parentBucketName bucketName' \<and>
      generateKeyName bucketName fileName = generateKeyName bucketName' fileName') \<and>
   (sizeBytes = sizeBytes' \<longrightarrow> classify sizeBytes = classify sizeBytes') \<and>
   (e \<in> set (new_calls s (snd (UploadFile X fileNames bucketName s))) \<and>
    (e = PutObject input \<or> e = Upload PartSize input) \<longrightarrow>
      put_Bucket input = parentBucketName bucketName \<and>
      (\<exists>g \<in> set fileNames. put_Key input = generateKeyName bucketName g)) \<and>
   (os_Stat X filePath = os_Stat X' filePath \<longrightarrow>
      fst (IsFileBigger X filePath s) = fst (IsFileBigger X' filePath s')) \<and>
   (os_Stat X filePath = Inr sizeBytes \<longrightarrow>
      fst (IsFileBigger X filePath s) = (classify sizeBytes = Multipart, None))"
proof (intro conjI impI)
  assume sent: "e \<in> set (new_calls s (snd (UploadFile X fileNames bucketName s))) \<and>
    (e = PutObject input \<or> e = Upload PartSize input)"
  from UploadFile_requests [of X fileNames bucketName s]
  obtain es where es: "calls (snd (UploadFile X fileNames bucketName s)) = calls s @ es"
    and each: "\<forall>e \<in> set es. \<exists>fileName \<in> set fileNames.
        (\<forall>PartSize input. e = Upload PartSize input \<longrightarrow>
           PartSize = 1073741824 \<and>
           (\<exists>sizeBytes.
              os_Stat X (Sprintf_slash (os_Getenv s ''LOCATION'') fileName) = Inr sizeBytes \<and>
              classify sizeBytes = Multipart) \<and>
           input = PutObjectInput (parentBucketName bucketName)
                     (generateKeyName bucketName fileName)
                     (Sprintf_slash (os_Getenv s ''LOCATION'') fileName)) \<and>
        (\<forall>input. e = PutObject input \<longrightarrow>
           (\<exists>sizeBytes.
              os_Stat X (Sprintf_slash (os_Getenv s ''LOCATION'') fileName) = Inr sizeBytes \<and>
              classify sizeBytes = Direct) \<and>
           input = PutObjectInput (parentBucketName bucketName)
                     (generateKeyName bucketName fileName)
                     (Sprintf_slash (os_Getenv s ''LOCATION'') fileName))"
    by blast
  from sent have mem: "e \<in> set es"
    by (simp add: new_calls_append [OF es])
  from each mem sent obtain g where g: "g \<in> set fileNames"
    "input = PutObjectInput (parentBucketName bucketName) (generateKeyName bucketName g)
       (Sprintf_slash (os_Getenv s ''LOCATION'') g)"
    by blast
  show "put_Bucket input = parentBucketName bucketName"
    by (simp add: g(2))
  show "\<exists>g \<in> set fileNames. put_Key input = generateKeyName bucketName g"
    using g by auto
qed (simp_all add: IsFileBigger_result)

theorem resolve_classify_pure_witness:
  "PutObject (PutObjectInput ''demo'' ''test/test2/a.dump'' ''/backups/a.dump'') \<in>
     set (new_calls demo_state
       (snd (UploadFile demo_outside [''a.dump''] ''demo/test/test2'' demo_state))) \<and>
   parentBucketName ''demo/test/test2'' = ''demo'' \<and>
   generateKeyName ''demo/test/test2'' ''a.dump'' = ''test/test2/a.dump'' \<and>
   os_Stat demo_outside ''/backups/big.dump'' =
     os_Stat (demo_outside\<lparr>os_Open := \<lambda>p. Some (Err ''busy'')\<rparr>) ''/backups/big.dump'' \<and>
   fst (IsFileBigger demo_outside ''/backups/big.dump'' demo_state) =
     fst (IsFileBigger (demo_outside\<lparr>os_Open := \<lambda>p. Some (Err ''busy'')\<rparr>)
       ''/backups/big.dump'' (demo_state\<lparr>handles := [''/backups/a.dump'']\<rparr>)) \<and>
   os_Stat demo_outside ''/backups/big.dump'' = Inr 2147483648 \<and>
   fst (IsFileBigger demo_outside ''/backups/big.dump'' demo_state) = (True, None)"
  using resolve_classify_pure [where bucketName = "''demo/test/test2''"
      and bucketName' = "''demo/test/test2''" and fileName = "''a.dump''"
      and fileName' = "''a.dump''" and sizeBytes = 2147483648 and sizeBytes' = 2147483648
      and e = "PutObject (PutObjectInput ''demo'' ''test/test2/a.dump'' ''/backups/a.dump'')"
      and input = "PutObjectInput ''demo'' ''test/test2/a.dump'' ''/backups/a.dump''"
      and s = demo_state and X = demo_outside and fileNames = "[''a.dump'']"
      and X' = "demo_outside\<lparr>os_Open := \<lambda>p. Some (Err ''busy'')\<rparr>"
      and s' = "demo_state\<lparr>handles := [''/backups/a.dump'']\<rparr>"
      and filePath = "''/backups/big.dump''"]
  by (simp add: demo_eval IsFileBigger_result)

end
